theory Spec2Isabelle
  imports Complex_Main "HOL-Library.Sublist"
begin

section \<open>JavaScript values used by the team analysis\<close>

text \<open>
  The three functions \<open>buildTeamAggregate\<close>, \<open>calculateDelta\<close> and \<open>generateAlerts\<close>
  of \<open>lib/teamAnalysis.ts\<close> compute with JavaScript numbers, strings, arrays, \<open>Map\<close>s
  and plain objects.

  A JavaScript number is modelled by \<open>number\<close>: a finite value is an exact rational, and
  the three non-finite values are kept apart, so that a division by zero is visible in
  the result as it is in JavaScript. The rounding error of IEEE doubles and the sign of
  zero are not modelled: finite arithmetic is exact.
\<close>

datatype number = Fin rat | PosInfinity | NegInfinity | NaN

fun js_div :: "number \<Rightarrow> number \<Rightarrow> number" where
  "js_div (Fin a) (Fin b) =
     (if b \<noteq> 0 then Fin (a / b)
      else if a = 0 then NaN else if 0 < a then PosInfinity else NegInfinity)"
| "js_div (Fin a) PosInfinity = Fin 0"
| "js_div (Fin a) NegInfinity = Fin 0"
| "js_div PosInfinity (Fin b) = (if 0 \<le> b then PosInfinity else NegInfinity)"
| "js_div NegInfinity (Fin b) = (if 0 \<le> b then NegInfinity else PosInfinity)"
| "js_div _ _ = NaN"

fun js_mul :: "number \<Rightarrow> number \<Rightarrow> number" where
  "js_mul (Fin a) (Fin b) = Fin (a * b)"
| "js_mul PosInfinity (Fin b) =
     (if b = 0 then NaN else if 0 < b then PosInfinity else NegInfinity)"
| "js_mul NegInfinity (Fin b) =
     (if b = 0 then NaN else if 0 < b then NegInfinity else PosInfinity)"
| "js_mul (Fin a) PosInfinity =
     (if a = 0 then NaN else if 0 < a then PosInfinity else NegInfinity)"
| "js_mul (Fin a) NegInfinity =
     (if a = 0 then NaN else if 0 < a then NegInfinity else PosInfinity)"
| "js_mul PosInfinity PosInfinity = PosInfinity"
| "js_mul NegInfinity NegInfinity = PosInfinity"
| "js_mul PosInfinity NegInfinity = NegInfinity"
| "js_mul NegInfinity PosInfinity = NegInfinity"
| "js_mul _ _ = NaN"

fun js_sub :: "number \<Rightarrow> number \<Rightarrow> number" where
  "js_sub (Fin a) (Fin b) = Fin (a - b)"
| "js_sub (Fin a) PosInfinity = NegInfinity"
| "js_sub (Fin a) NegInfinity = PosInfinity"
| "js_sub PosInfinity (Fin b) = PosInfinity"
| "js_sub NegInfinity (Fin b) = NegInfinity"
| "js_sub PosInfinity NegInfinity = PosInfinity"
| "js_sub NegInfinity PosInfinity = NegInfinity"
| "js_sub _ _ = NaN"

text \<open>The comparisons \<open><\<close> and \<open><=\<close>; every comparison with \<open>NaN\<close> is false.\<close>

fun js_lt :: "number \<Rightarrow> number \<Rightarrow> bool" where
  "js_lt (Fin a) (Fin b) = (a < b)"
| "js_lt (Fin a) PosInfinity = True"
| "js_lt NegInfinity (Fin b) = True"
| "js_lt NegInfinity PosInfinity = True"
| "js_lt _ _ = False"

fun js_le :: "number \<Rightarrow> number \<Rightarrow> bool" where
  "js_le (Fin a) (Fin b) = (a \<le> b)"
| "js_le (Fin a) PosInfinity = True"
| "js_le NegInfinity (Fin b) = True"
| "js_le NegInfinity PosInfinity = True"
| "js_le PosInfinity PosInfinity = True"
| "js_le NegInfinity NegInfinity = True"
| "js_le _ _ = False"

definition js_gt :: "number \<Rightarrow> number \<Rightarrow> bool" where
  "js_gt x y = js_lt y x"

definition js_ge :: "number \<Rightarrow> number \<Rightarrow> bool" where
  "js_ge x y = js_le y x"

text \<open>\<open>x === y\<close> on numbers: \<open>NaN\<close> is not equal to itself.\<close>

definition js_eq :: "number \<Rightarrow> number \<Rightarrow> bool" where
  "js_eq x y = (x = y \<and> x \<noteq> NaN)"

text \<open>Truthiness of a number, as \<open>||\<close> tests it: \<open>0\<close> and \<open>NaN\<close> are falsy.\<close>

fun truthy :: "number \<Rightarrow> bool" where
  "truthy (Fin a) = (a \<noteq> 0)"
| "truthy NaN = False"
| "truthy _ = True"

definition js_or :: "number \<Rightarrow> number \<Rightarrow> number" where
  "js_or x y = (if truthy x then x else y)"

text \<open>\<open>Math.round\<close> rounds to the nearest integer, a tie towards \<open>+\<infinity>\<close>.\<close>

fun Math_round :: "number \<Rightarrow> number" where
  "Math_round (Fin a) = Fin (of_int \<lfloor>a + 1 / 2\<rfloor>)"
| "Math_round x = x"

definition of_count :: "nat \<Rightarrow> number" where
  "of_count n = Fin (of_nat n)"

text \<open>
  Number to string, as a template literal does it. The code only interpolates results of
  \<open>Math.round\<close> and array lengths, so only integers and the non-finite values are
  printed; a finite value is printed by its integer part.
\<close>

definition digit_char :: "nat \<Rightarrow> char" where
  "digit_char d = ''0123456789'' ! d"

fun nat_to_string :: "nat \<Rightarrow> string" where
  "nat_to_string n =
     (if n < 10 then [digit_char n]
      else nat_to_string (n div 10) @ [digit_char (n mod 10)])"

declare nat_to_string.simps [simp del]

definition int_to_string :: "int \<Rightarrow> string" where
  "int_to_string i = (if i < 0 then ''-'' @ nat_to_string (nat (- i)) else nat_to_string (nat i))"

fun number_to_string :: "number \<Rightarrow> string" where
  "number_to_string (Fin a) = int_to_string \<lfloor>a\<rfloor>"
| "number_to_string PosInfinity = ''Infinity''"
| "number_to_string NegInfinity = ''-Infinity''"
| "number_to_string NaN = ''NaN''"

text \<open>
  Strings are lists of 8-bit characters. \<open>toLowerCase\<close> folds the ASCII letters; the
  theorems below that do not evaluate it on a concrete string hold for any function in
  its place.
\<close>

definition lower_char :: "char \<Rightarrow> char" where
  "lower_char c =
     (case map_of (zip ''ABCDEFGHIJKLMNOPQRSTUVWXYZ'' ''abcdefghijklmnopqrstuvwxyz'') c of
        Some l \<Rightarrow> l
      | None \<Rightarrow> c)"

definition toLowerCase :: "string \<Rightarrow> string" where
  "toLowerCase s = map lower_char s"

text \<open>\<open>xs.join(sep)\<close> on an array of strings.\<close>

fun join :: "string \<Rightarrow> string list \<Rightarrow> string" where
  "join sep [] = []"
| "join sep [x] = x"
| "join sep (x # y # ys) = x @ sep @ join sep (y # ys)"

text \<open>
  A \<open>Map\<close> with string keys, and a plain object used as a dictionary, is an association
  list in insertion order with one entry per key. \<open>dict_set\<close> overwrites the value of a
  key in place and appends a new key at the end, as \<open>Map.prototype.set\<close> does.
\<close>

type_synonym 'v dict = "(string \<times> 'v) list"

definition dict_get :: "'v dict \<Rightarrow> string \<Rightarrow> 'v option" where
  "dict_get m k = map_of m k"

definition dict_has :: "'v dict \<Rightarrow> string \<Rightarrow> bool" where
  "dict_has m k = (map_of m k \<noteq> None)"

fun dict_set :: "'v dict \<Rightarrow> string \<Rightarrow> 'v \<Rightarrow> 'v dict" where
  "dict_set [] k v = [(k, v)]"
| "dict_set ((k', v') # m) k v =
     (if k' = k then (k, v) # m else (k', v') # dict_set m k v)"

text \<open>
  \<open>Array.prototype.sort(comparefn)\<close> is stable (ECMAScript 2019), and a comparator
  result of \<open>NaN\<close> counts as \<open>0\<close>. The model is the stable insertion sort: an element
  moves behind exactly those elements the comparator puts strictly before it.
\<close>

fun insort_by :: "('a \<Rightarrow> 'a \<Rightarrow> number) \<Rightarrow> 'a \<Rightarrow> 'a list \<Rightarrow> 'a list" where
  "insort_by cmp x [] = [x]"
| "insort_by cmp x (y # ys) =
     (if js_gt (cmp x y) (Fin 0) then y # insort_by cmp x ys else x # y # ys)"

definition js_sort :: "('a \<Rightarrow> 'a \<Rightarrow> number) \<Rightarrow> 'a list \<Rightarrow> 'a list" where
  "js_sort cmp xs = foldr (insort_by cmp) xs []"


section \<open>Data model\<close>

text \<open>
  The records follow \<open>types/api.ts\<close>, with the fields the analysis reads. A field that
  the code tests before use (\<open>genome.strengths && Array.isArray(genome.strengths)\<close>,
  \<open>strength.proficiency || 'unknown'\<close>) is an option: \<open>None\<close> is an absent, null or
  non-array value. Field names that occur in several interfaces carry the initials of
  their interface (\<open>sf_\<close> for \<open>SkillFrequency\<close>, \<open>sd_\<close> for \<open>SkillDelta\<close>, and so on).
  Counters and team sizes are array lengths and increments of \<open>0\<close>: natural numbers.
\<close>

record GenomeStrength =
  name :: string
  proficiency :: "string option"

record GenomeLanguage =
  code :: string
  language :: string
  fluency :: "string option"

record GenomeResponse =
  strengths :: "GenomeStrength list option"
  languages :: "GenomeLanguage list option"

record SkillFrequency =
  sf_skillName :: string
  sf_count :: nat
  sf_percentage :: number
  proficiencyLevels :: "nat dict"

record LanguageFrequency =
  lf_count :: nat
  lf_percentage :: number
  fluencyLevels :: "nat dict"

record TeamAggregate =
  totalMembers :: nat
  ta_skills :: "SkillFrequency list"
  ta_languages :: "LanguageFrequency dict"

record SkillDelta =
  sd_skillName :: string
  candidateProficiency :: string
  sd_teamCoverage :: number
  teamProficiencyDistribution :: "number dict"
  isRedundant :: bool
  sd_isValueAdd :: bool

record LanguageDelta =
  languageCode :: string
  languageName :: string
  candidateFluency :: string
  ld_teamCoverage :: number
  ld_isValueAdd :: bool

record Summary =
  totalRedundantSkills :: nat
  totalValueAddSkills :: nat
  totalValueAddLanguages :: nat
  totalTeamMembers :: nat

record DeltaAnalysis =
  redundantSkills :: "SkillDelta list"
  valueAddSkills :: "SkillDelta list"
  valueAddLanguages :: "LanguageDelta list"
  summary :: Summary

datatype Severity = High | Medium | Low

text \<open>The constant \<open>type\<close> tags of the two alert interfaces are left out.\<close>

record RedundancyAlert =
  severity :: Severity
  ra_message :: string
  ra_skills :: "SkillDelta list"
  ra_count :: number

record ValueAddAlert =
  va_message :: string
  va_skills :: "SkillDelta list"
  va_languages :: "LanguageDelta list"

record Alerts =
  redundancyAlerts :: "RedundancyAlert list"
  valueAddAlert :: "ValueAddAlert option"

section \<open>buildTeamAggregate\<close>

definition REDUNDANCY_THRESHOLD :: number where
  "REDUNDANCY_THRESHOLD = Fin (8 / 10)"

definition VALUE_ADD_THRESHOLD :: number where
  "VALUE_ADD_THRESHOLD = Fin (2 / 10)"

text \<open>\<open>genome.strengths && Array.isArray(genome.strengths)\<close>: the array, or nothing to loop over.\<close>

definition array_or_empty :: "'a list option \<Rightarrow> 'a list" where
  "array_or_empty a = (case a of None \<Rightarrow> [] | Some xs \<Rightarrow> xs)"

text \<open>\<open>strength.proficiency || 'unknown'\<close>: the empty string is falsy too.\<close>

definition or_unknown :: "string option \<Rightarrow> string" where
  "or_unknown p = (case p of None \<Rightarrow> ''unknown'' | Some s \<Rightarrow> if s = [] then ''unknown'' else s)"

text \<open>
  The values of \<open>skillMap\<close> and \<open>languageMap\<close>: a counter and the counters per level.
  The two inner loop bodies of \<open>buildTeamAggregate\<close> are the same code up to the names
  (\<open>skillName\<close>/\<open>langCode\<close>, \<open>proficiency\<close>/\<open>fluency\<close>); \<open>tally\<close> is that body.
\<close>

record Tally =
  tally_count :: nat
  tally_levels :: "nat dict"

definition tally :: "string \<Rightarrow> string \<Rightarrow> Tally dict \<Rightarrow> Tally dict" where
  "tally key level m =
     (let m1 = (if \<not> dict_has m key
                then dict_set m key \<lparr>tally_count = 0, tally_levels = []\<rparr> else m)
      in case dict_get m1 key of
           None \<Rightarrow> m1
         | Some data \<Rightarrow>
             let current = (case dict_get (tally_levels data) level of
                              None \<Rightarrow> 0 | Some c \<Rightarrow> c)
             in dict_set m1 key
                  \<lparr>tally_count = tally_count data + 1,
                   tally_levels = dict_set (tally_levels data) level (current + 1)\<rparr>)"

definition processGenome ::
  "GenomeResponse \<Rightarrow> Tally dict \<times> Tally dict \<Rightarrow> Tally dict \<times> Tally dict" where
  "processGenome genome maps =
     (fold (\<lambda>strength. tally (name strength) (or_unknown (proficiency strength)))
        (array_or_empty (strengths genome)) (fst maps),
      fold (\<lambda>lang. tally (code lang) (or_unknown (fluency lang)))
        (array_or_empty (languages genome)) (snd maps))"

text \<open>\<open>Math.round((count / totalMembers) * 100 * 100) / 100\<close>, as written three times.\<close>

definition percent2 :: "nat \<Rightarrow> nat \<Rightarrow> number" where
  "percent2 cnt members =
     js_div (Math_round (js_mul (js_mul (js_div (of_count cnt) (of_count members)) (Fin 100))
       (Fin 100))) (Fin 100)"

definition emptyAggregate :: TeamAggregate where
  "emptyAggregate = \<lparr>totalMembers = 0, ta_skills = [], ta_languages = []\<rparr>"

definition skillFrequency :: "nat \<Rightarrow> string \<times> Tally \<Rightarrow> SkillFrequency" where
  "skillFrequency members entry =
     \<lparr>sf_skillName = fst entry,
      sf_count = tally_count (snd entry),
      sf_percentage = percent2 (tally_count (snd entry)) members,
      proficiencyLevels = tally_levels (snd entry)\<rparr>"

definition languageFrequency :: "nat \<Rightarrow> string \<times> Tally \<Rightarrow> string \<times> LanguageFrequency" where
  "languageFrequency members entry =
     (fst entry,
      \<lparr>lf_count = tally_count (snd entry),
       lf_percentage = percent2 (tally_count (snd entry)) members,
       fluencyLevels = tally_levels (snd entry)\<rparr>)"

text \<open>The argument is \<open>None\<close> for an absent collection (\<open>!genomes\<close>).\<close>

definition buildTeamAggregate :: "GenomeResponse list option \<Rightarrow> TeamAggregate" where
  "buildTeamAggregate genomes =
     (case genomes of
        None \<Rightarrow> emptyAggregate
      | Some gs \<Rightarrow>
          if length gs = 0 then emptyAggregate
          else
            let members = length gs;
                maps = fold processGenome gs ([], []);
                skills = map (skillFrequency members) (fst maps);
                sorted_skills =
                  js_sort (\<lambda>a b. js_sub (of_count (sf_count b)) (of_count (sf_count a))) skills
            in \<lparr>totalMembers = members,
                ta_skills = sorted_skills,
                ta_languages = map (languageFrequency members) (snd maps)\<rparr>)"


section \<open>calculateDelta\<close>

text \<open>
  \<open>teamSkillMap\<close>: every team skill is stored under its lower-cased name, a later skill
  of the sequence overwriting an earlier one with the same lower-cased name.
\<close>

definition teamSkillMap_of :: "SkillFrequency list \<Rightarrow> SkillFrequency dict" where
  "teamSkillMap_of skills =
     fold (\<lambda>skill m. dict_set m (toLowerCase (sf_skillName skill)) skill) skills []"

text \<open>The body of the loop over the candidate's strengths, up to the \<open>skillDelta\<close> object.\<close>

definition skillDelta ::
  "TeamAggregate \<Rightarrow> SkillFrequency dict \<Rightarrow> GenomeStrength \<Rightarrow> SkillDelta" where
  "skillDelta teamAggregate teamSkillMap strength =
     (let skillName = name strength;
          candidateProf = or_unknown (proficiency strength);
          skillKey = toLowerCase skillName;
          teamSkill = dict_get teamSkillMap skillKey;
          teamCoverage = (case teamSkill of
                            Some ts \<Rightarrow> js_div (sf_percentage ts) (Fin 100)
                          | None \<Rightarrow> Fin 0);
          distribution = (case teamSkill of
                            Some ts \<Rightarrow>
                              map (\<lambda>(prof, cnt). (prof, percent2 cnt (totalMembers teamAggregate)))
                                (proficiencyLevels ts)
                          | None \<Rightarrow> [])
      in \<lparr>sd_skillName = skillName,
          candidateProficiency = candidateProf,
          sd_teamCoverage = teamCoverage,
          teamProficiencyDistribution = distribution,
          isRedundant = js_gt teamCoverage REDUNDANCY_THRESHOLD,
          sd_isValueAdd = js_lt teamCoverage VALUE_ADD_THRESHOLD\<rparr>)"

text \<open>The two pushes at the end of that body; the state is \<open>(redundantSkills, valueAddSkills)\<close>.\<close>

definition pushSkill ::
  "SkillDelta \<Rightarrow> SkillDelta list \<times> SkillDelta list \<Rightarrow> SkillDelta list \<times> SkillDelta list" where
  "pushSkill d acc =
     (if isRedundant d then (fst acc @ [d], snd acc)
      else if sd_isValueAdd d then (fst acc, snd acc @ [d])
      else acc)"

definition languageCoverage :: "TeamAggregate \<Rightarrow> GenomeLanguage \<Rightarrow> number" where
  "languageCoverage teamAggregate lang =
     (case dict_get (ta_languages teamAggregate) (code lang) of
        Some teamLanguage \<Rightarrow> js_div (lf_percentage teamLanguage) (Fin 100)
      | None \<Rightarrow> Fin 0)"

definition languageDelta :: "TeamAggregate \<Rightarrow> GenomeLanguage \<Rightarrow> LanguageDelta" where
  "languageDelta teamAggregate lang =
     \<lparr>languageCode = code lang,
      languageName = language lang,
      candidateFluency = or_unknown (fluency lang),
      ld_teamCoverage = languageCoverage teamAggregate lang,
      ld_isValueAdd = True\<rparr>"

definition pushLanguage ::
  "TeamAggregate \<Rightarrow> GenomeLanguage \<Rightarrow> LanguageDelta list \<Rightarrow> LanguageDelta list" where
  "pushLanguage teamAggregate lang acc =
     (if js_lt (languageCoverage teamAggregate lang) VALUE_ADD_THRESHOLD
      then acc @ [languageDelta teamAggregate lang]
      else acc)"

definition calculateDelta :: "GenomeResponse \<Rightarrow> TeamAggregate \<Rightarrow> DeltaAnalysis" where
  "calculateDelta candidateGenome teamAggregate =
     (let teamSkillMap = teamSkillMap_of (ta_skills teamAggregate);
          pushed = fold (\<lambda>strength. pushSkill (skillDelta teamAggregate teamSkillMap strength))
                     (array_or_empty (strengths candidateGenome)) ([], []);
          langs = fold (pushLanguage teamAggregate)
                    (array_or_empty (languages candidateGenome)) [];
          redundant = js_sort (\<lambda>a b. js_sub (sd_teamCoverage b) (sd_teamCoverage a)) (fst pushed);
          valueAdd = js_sort (\<lambda>a b. js_sub (sd_teamCoverage a) (sd_teamCoverage b)) (snd pushed)
      in \<lparr>redundantSkills = redundant,
          valueAddSkills = valueAdd,
          valueAddLanguages = langs,
          summary = \<lparr>totalRedundantSkills = length redundant,
                      totalValueAddSkills = length valueAdd,
                      totalValueAddLanguages = length langs,
                      totalTeamMembers = totalMembers teamAggregate\<rparr>\<rparr>)"

section \<open>generateAlerts\<close>

definition formatProficiency :: "string \<Rightarrow> string" where
  "formatProficiency prof =
     (case map_of
        [(''no-experience-interested'', ''No Experience (Interested)''),
         (''novice'', ''Novice''),
         (''proficient'', ''Proficient''),
         (''expert'', ''Expert''),
         (''master'', ''Master'')] prof of
        Some label \<Rightarrow> label
      | None \<Rightarrow> prof)"

definition formatFluency :: "string \<Rightarrow> string" where
  "formatFluency flu =
     (case map_of
        [(''basic'', ''Basic''),
         (''conversational'', ''Conversational''),
         (''fully-fluent'', ''Fully Fluent''),
         (''native-or-bilingual'', ''Native/Bilingual'')] flu of
        Some label \<Rightarrow> label
      | None \<Rightarrow> flu)"

text \<open>The key of \<open>skillGroups\<close>: the template \<open>`${skill.skillName.toLowerCase()}_${skill.candidateProficiency}`\<close>.\<close>

definition groupKey :: "SkillDelta \<Rightarrow> string" where
  "groupKey skill = toLowerCase (sd_skillName skill) @ ''_'' @ candidateProficiency skill"

definition addToGroup :: "SkillDelta \<Rightarrow> SkillDelta list dict \<Rightarrow> SkillDelta list dict" where
  "addToGroup skill skillGroups =
     (let key = groupKey skill;
          groups1 = (if \<not> dict_has skillGroups key then dict_set skillGroups key []
                     else skillGroups)
      in case dict_get groups1 key of
           None \<Rightarrow> groups1
         | Some grp \<Rightarrow> dict_set groups1 key (grp @ [skill]))"

definition skillGroups_of :: "SkillDelta list \<Rightarrow> SkillDelta list dict" where
  "skillGroups_of skills = fold addToGroup skills []"

definition severity_of :: "number \<Rightarrow> Severity" where
  "severity_of teamCoverage =
     (if js_ge teamCoverage (Fin (9 / 10)) then High
      else if js_ge teamCoverage (Fin (85 / 100)) then Medium
      else Low)"

text \<open>
  The body of the loop over \<open>skillGroups.values()\<close>; \<open>None\<close> is the \<open>continue\<close> on an
  empty group. The first argument is \<open>delta.summary.totalTeamMembers\<close>.
\<close>

definition redundancyAlert :: "nat \<Rightarrow> SkillDelta list \<Rightarrow> RedundancyAlert option" where
  "redundancyAlert teamMembers skills =
     (case skills of
        [] \<Rightarrow> None
      | skill # _ \<Rightarrow>
          let members = js_or (of_count teamMembers) (Fin 1);
              proficiencyPercentage =
                (case dict_get (teamProficiencyDistribution skill) (candidateProficiency skill) of
                   None \<Rightarrow> Fin 0
                 | Some pct \<Rightarrow> js_or pct (Fin 0));
              exactMatchCount = Math_round (js_mul (js_div proficiencyPercentage (Fin 100)) members);
              message =
                (if js_gt exactMatchCount (Fin 0)
                 then ''Warning: You already have '' @ number_to_string exactMatchCount
                      @ '' team member'' @ (if js_gt exactMatchCount (Fin 1) then ''s'' else [])
                      @ '' with '' @ sd_skillName skill @ '' at ''
                      @ formatProficiency (candidateProficiency skill) @ '' proficiency level.''
                 else ''Warning: '' @ number_to_string (Math_round (js_mul (sd_teamCoverage skill) (Fin 100)))
                      @ ''% of your team already has '' @ sd_skillName skill @ ''.'')
          in Some \<lparr>severity = severity_of (sd_teamCoverage skill),
                   ra_message = message,
                   ra_skills = skills,
                   ra_count = js_or exactMatchCount
                                (Math_round (js_mul (sd_teamCoverage skill) members))\<rparr>)"

text \<open>The apostrophe and the em dash (U+2014, in UTF-8) of the value-add message.\<close>

definition apostrophe :: string where
  "apostrophe = [CHR 0x27]"

definition em_dash :: string where
  "em_dash = [CHR 0xE2, CHR 0x80, CHR 0x94]"

text \<open>The array \<open>additions\<close>: a clause for the skills and a clause for the languages.\<close>

definition valueAddAdditions :: "string list \<Rightarrow> string list \<Rightarrow> string list" where
  "valueAddAdditions skillNames languageNames =
     (if length skillNames > 0
      then [''skills '' @ apostrophe
            @ join (apostrophe @ '', '' @ apostrophe) (take 3 skillNames)
            @ (if length skillNames > 3
               then apostrophe @ '' and '' @ nat_to_string (length skillNames - 3) @ '' more''
               else apostrophe)]
      else [])
     @ (if length languageNames > 0
        then [''languages '' @ apostrophe
              @ join (apostrophe @ '', '' @ apostrophe) languageNames @ apostrophe]
        else [])"

definition valueAddMessage :: "DeltaAnalysis \<Rightarrow> string list \<Rightarrow> string list \<Rightarrow> string" where
  "valueAddMessage delta skillNames languageNames =
     (let additions = valueAddAdditions skillNames languageNames
      in ''Strong Hire: ''
         @ (if length additions > 0
            then ''This candidate brings '' @ join '' and '' additions @ em_dash
                 @ ''skills your current team ''
                 @ (if list_ex (\<lambda>s. js_eq (sd_teamCoverage s) (Fin 0)) (valueAddSkills delta)
                    then ''completely lacks'' else ''has limited coverage in'')
                 @ ''.''
            else []))"

definition generateAlerts :: "DeltaAnalysis \<Rightarrow> Alerts" where
  "generateAlerts delta =
     (let skillGroups = skillGroups_of (redundantSkills delta);
          alerts = List.map_filter (redundancyAlert (totalTeamMembers (summary delta)))
                     (map snd skillGroups);
          valueAdd =
            (if length (valueAddSkills delta) > 0 \<or> length (valueAddLanguages delta) > 0
             then
               let topValueAddSkills = take 10 (valueAddSkills delta);
                   skillNames = map sd_skillName topValueAddSkills;
                   languageNames = map languageName (valueAddLanguages delta)
               in Some \<lparr>va_message = valueAddMessage delta skillNames languageNames,
                        va_skills = topValueAddSkills,
                        va_languages = valueAddLanguages delta\<rparr>
             else None)
      in \<lparr>redundancyAlerts = alerts, valueAddAlert = valueAdd\<rparr>)"

section \<open>Notions used to state the properties\<close>











section \<open>Example inputs\<close>




definition redundant_skill :: "string \<Rightarrow> string \<Rightarrow> rat \<Rightarrow> number dict \<Rightarrow> SkillDelta" where
  "redundant_skill n p c levels =
     \<lparr>sd_skillName = n, candidateProficiency = p, sd_teamCoverage = Fin c,
      teamProficiencyDistribution = levels, isRedundant = True, sd_isValueAdd = False\<rparr>"

definition valueAdd_skill :: "string \<Rightarrow> rat \<Rightarrow> SkillDelta" where
  "valueAdd_skill n c =
     \<lparr>sd_skillName = n, candidateProficiency = ''expert'', sd_teamCoverage = Fin c,
      teamProficiencyDistribution = [], isRedundant = False, sd_isValueAdd = True\<rparr>"

definition delta_of :: "nat \<Rightarrow> SkillDelta list \<Rightarrow> SkillDelta list \<Rightarrow> DeltaAnalysis" where
  "delta_of n rs vs =
     \<lparr>redundantSkills = rs, valueAddSkills = vs, valueAddLanguages = [],
      summary = \<lparr>totalRedundantSkills = length rs, totalValueAddSkills = length vs,
                  totalValueAddLanguages = 0, totalTeamMembers = n\<rparr>\<rparr>"

definition delta_severities :: DeltaAnalysis where
  "delta_severities =
     delta_of 100000
       [redundant_skill ''A'' ''expert'' (90 / 100) [],
        redundant_skill ''B'' ''expert'' (89 / 100) [],
        redundant_skill ''C'' ''expert'' (85 / 100) [],
        redundant_skill ''D'' ''expert'' (84 / 100) [],
        redundant_skill ''E'' ''expert'' (80001 / 100000) []] []"

definition candidate_11_skills :: GenomeResponse where
  "candidate_11_skills =
     \<lparr>strengths = Some (map (\<lambda>n. \<lparr>name = n, proficiency = Some ''novice''\<rparr>)
        [''S1'', ''S2'', ''S3'', ''S4'', ''S5'', ''S6'', ''S7'', ''S8'', ''S9'', ''S10'', ''S11'']),
      languages = None\<rparr>"














section \<open>Basic facts about the model\<close>

lemma fold_pushSkill:
  "fold (\<lambda>x. pushSkill (f x)) xs acc =
     (fst acc @ filter isRedundant (map f xs),
      snd acc @ filter (\<lambda>d. \<not> isRedundant d \<and> sd_isValueAdd d) (map f xs))"
  by (induction xs arbitrary: acc) (auto simp: pushSkill_def)




lemma length_insort_by: "length (insort_by cmp x ys) = Suc (length ys)"
  by (induction ys) auto

lemma length_js_sort: "length (js_sort cmp xs) = length xs"
  by (induction xs) (auto simp: js_sort_def length_insort_by)






lemma calculateDelta_valueAdd:
  "valueAddSkills (calculateDelta c t) =
     js_sort (\<lambda>a b. js_sub (sd_teamCoverage a) (sd_teamCoverage b))
       (filter (\<lambda>d. \<not> isRedundant d \<and> sd_isValueAdd d)
          (map (skillDelta t (teamSkillMap_of (ta_skills t))) (array_or_empty (strengths c))))"
  by (simp add: calculateDelta_def Let_def fold_pushSkill)


lemma calculateDelta_summary:
  "summary (calculateDelta c t) =
     \<lparr>totalRedundantSkills = length (redundantSkills (calculateDelta c t)),
      totalValueAddSkills = length (valueAddSkills (calculateDelta c t)),
      totalValueAddLanguages = length (valueAddLanguages (calculateDelta c t)),
      totalTeamMembers = totalMembers t\<rparr>"
  by (simp add: calculateDelta_def Let_def)

section \<open>Evaluation of the model on concrete inputs\<close>

lemma floor_rat_numeral [simp]: "\<lfloor>(numeral a :: rat) / numeral b\<rfloor> = numeral a div numeral b"
  using floor_divide_of_int_eq [of "numeral a" "numeral b", where ?'a = rat] by simp

lemma floor_rat_one_div [simp]: "\<lfloor>(1 :: rat) / numeral b\<rfloor> = 1 div numeral b"
  using floor_divide_of_int_eq [of 1 "numeral b", where ?'a = rat] by simp

lemmas number_defs = of_count_def js_gt_def js_ge_def js_eq_def js_or_def percent2_def


lemmas delta_defs = skillDelta_def teamSkillMap_of_def toLowerCase_def lower_char_def
  dict_get_def Let_def


section \<open>Threshold classification\<close>



section \<open>Alert generation\<close>

lemma redundancyAlerts_generateAlerts:
  "redundancyAlerts (generateAlerts d) =
     List.map_filter (redundancyAlert (totalTeamMembers (summary d)))
       (map snd (skillGroups_of (redundantSkills d)))"
  by (simp add: generateAlerts_def Let_def)

lemma valueAddAlert_generateAlerts:
  "valueAddAlert (generateAlerts d) =
     (if valueAddSkills d \<noteq> [] \<or> valueAddLanguages d \<noteq> []
      then Some \<lparr>va_message = valueAddMessage d (map sd_skillName (take 10 (valueAddSkills d)))
                                 (map languageName (valueAddLanguages d)),
                 va_skills = take 10 (valueAddSkills d),
                 va_languages = valueAddLanguages d\<rparr>
      else None)"
  by (simp add: generateAlerts_def Let_def)

lemma redundancyAlert_Some:
  assumes "redundancyAlert n g = Some a"
  shows "g \<noteq> [] \<and> ra_skills a = g \<and> severity a = severity_of (sd_teamCoverage (hd g))"
  using assms by (auto simp: redundancyAlert_def Let_def split: list.splits)

lemma alert_of_group:
  assumes "a \<in> set (redundancyAlerts (generateAlerts d))"
  shows "redundancyAlert (totalTeamMembers (summary d)) (ra_skills a) = Some a \<and> ra_skills a \<noteq> []"
proof -
  from assms obtain g where g: "redundancyAlert (totalTeamMembers (summary d)) g = Some a"
    by (auto simp: redundancyAlerts_generateAlerts List.map_filter_def)
  with redundancyAlert_Some [OF g] show ?thesis by simp
qed

lemma severity_of_High: "(severity_of c = High) = js_ge c (Fin (9 / 10))"
  by (simp add: severity_of_def)

lemma js_ge_mono: "js_ge c (Fin a) \<Longrightarrow> b \<le> a \<Longrightarrow> js_ge c (Fin b)"
  by (cases c) (auto simp: js_ge_def)

lemma not_js_ge_iff_lt: "js_ge c (Fin b) \<Longrightarrow> (\<not> js_ge c (Fin a)) = js_lt c (Fin a)"
  by (cases c) (auto simp: js_ge_def)

lemma severity_of_Medium:
  "(severity_of c = Medium) = (js_ge c (Fin (85 / 100)) \<and> js_lt c (Fin (9 / 10)))"
  using js_ge_mono [of c "9 / 10" "85 / 100"] not_js_ge_iff_lt [of c "85 / 100" "9 / 10"]
  by (auto simp: severity_of_def)

lemma severity_of_Low: "(severity_of c = Low) = (\<not> js_ge c (Fin (85 / 100)))"
  using js_ge_mono [of c "9 / 10" "85 / 100"]
  by (auto simp: severity_of_def)

text \<open>
  C7. The severity of a redundancy alert is decided by the team coverage of the first
  skill of its group: \<open>high\<close> exactly when it is at least \<open>0.9\<close>, \<open>medium\<close> exactly when
  it is at least \<open>0.85\<close> and below \<open>0.9\<close>, and \<open>low\<close> otherwise. In particular \<open>0.90\<close>
  gives high, \<open>0.89\<close> and \<open>0.85\<close> medium, \<open>0.84\<close> and \<open>0.80001\<close> low.
\<close>

theorem C7_severity:
  assumes "a \<in> set (redundancyAlerts (generateAlerts delta))"
  shows "ra_skills a \<noteq> []
     \<and> (severity a = High) = js_ge (sd_teamCoverage (hd (ra_skills a))) (Fin (9 / 10))
     \<and> (severity a = Medium) =
         (js_ge (sd_teamCoverage (hd (ra_skills a))) (Fin (85 / 100))
          \<and> js_lt (sd_teamCoverage (hd (ra_skills a))) (Fin (9 / 10)))
     \<and> (severity a = Low) = (\<not> js_ge (sd_teamCoverage (hd (ra_skills a))) (Fin (85 / 100)))
     \<and> severity_of (Fin (90 / 100)) = High
     \<and> severity_of (Fin (89 / 100)) = Medium
     \<and> severity_of (Fin (85 / 100)) = Medium
     \<and> severity_of (Fin (84 / 100)) = Low
     \<and> severity_of (Fin (80001 / 100000)) = Low"
proof -
  from alert_of_group [OF assms]
  have g: "redundancyAlert (totalTeamMembers (summary delta)) (ra_skills a) = Some a"
    and ne: "ra_skills a \<noteq> []" by simp_all
  from redundancyAlert_Some [OF g]
  have s: "severity a = severity_of (sd_teamCoverage (hd (ra_skills a)))" by simp
  have inst: "severity_of (Fin (90 / 100)) = High \<and> severity_of (Fin (89 / 100)) = Medium
     \<and> severity_of (Fin (85 / 100)) = Medium \<and> severity_of (Fin (84 / 100)) = Low
     \<and> severity_of (Fin (80001 / 100000)) = Low"
    by (simp add: severity_of_def js_ge_def)
  have main: "(severity a = High) = js_ge (sd_teamCoverage (hd (ra_skills a))) (Fin (9 / 10))
     \<and> (severity a = Medium) =
         (js_ge (sd_teamCoverage (hd (ra_skills a))) (Fin (85 / 100))
          \<and> js_lt (sd_teamCoverage (hd (ra_skills a))) (Fin (9 / 10)))
     \<and> (severity a = Low) = (\<not> js_ge (sd_teamCoverage (hd (ra_skills a))) (Fin (85 / 100)))"
    unfolding s severity_of_High severity_of_Medium severity_of_Low by simp
  from ne main inst show ?thesis by blast
qed


lemmas alert_defs = generateAlerts_def skillGroups_of_def addToGroup_def groupKey_def
  redundancyAlert_def severity_of_def formatProficiency_def valueAddMessage_def
  valueAddAdditions_def
  List.map_filter_def dict_get_def dict_has_def toLowerCase_def lower_char_def Let_def
  int_to_string_def digit_char_def apostrophe_def em_dash_def

lemmas example_defs = redundant_skill_def valueAdd_skill_def delta_of_def

theorem C7_severity_witness:
  "hd (redundancyAlerts (generateAlerts delta_severities))
      \<in> set (redundancyAlerts (generateAlerts delta_severities))
   \<and> severity (hd (redundancyAlerts (generateAlerts delta_severities))) = High
   \<and> map severity (redundancyAlerts (generateAlerts delta_severities))
       = [High, Medium, Medium, Low, Low]"
proof -
  have len: "length (redundancyAlerts (generateAlerts delta_severities)) = 5"
    by (simp add: delta_severities_def example_defs alert_defs number_defs)
  then have mem: "hd (redundancyAlerts (generateAlerts delta_severities))
      \<in> set (redundancyAlerts (generateAlerts delta_severities))"
    by (cases "redundancyAlerts (generateAlerts delta_severities)") simp_all
  have cov: "js_ge (sd_teamCoverage (hd (ra_skills
      (hd (redundancyAlerts (generateAlerts delta_severities)))))) (Fin (9 / 10))"
    by (simp add: delta_severities_def example_defs alert_defs number_defs)
  have all: "map severity (redundancyAlerts (generateAlerts delta_severities))
       = [High, Medium, Medium, Low, Low]"
    by (simp add: delta_severities_def example_defs alert_defs number_defs)
  from C7_severity [OF mem] cov
  have "severity (hd (redundancyAlerts (generateAlerts delta_severities))) = High"
    by blast
  with mem all show ?thesis by blast
qed

text \<open>
  C8. When \<open>valueAddSkills\<close> has more than 10 entries, the value-add alert exists, its
  skill list is the first 10 entries of \<open>valueAddSkills\<close> and its language list is all
  of \<open>valueAddLanguages\<close>; the summary that \<open>calculateDelta\<close> returns counts every entry
  of \<open>valueAddSkills\<close>.
\<close>

theorem C8_value_add_truncation:
  assumes "length (valueAddSkills delta) > 10"
  shows "(\<exists>a. valueAddAlert (generateAlerts delta) = Some a
            \<and> va_skills a = take 10 (valueAddSkills delta)
            \<and> length (va_skills a) = 10
            \<and> va_languages a = valueAddLanguages delta)
     \<and> (delta = calculateDelta candidate team \<longrightarrow>
            totalValueAddSkills (summary delta) = length (valueAddSkills delta)
            \<and> totalValueAddSkills (summary delta) > 10)"
proof -
  from assms have ne: "valueAddSkills delta \<noteq> []" by auto
  have alert: "\<exists>a. valueAddAlert (generateAlerts delta) = Some a
            \<and> va_skills a = take 10 (valueAddSkills delta)
            \<and> length (va_skills a) = 10
            \<and> va_languages a = valueAddLanguages delta"
    using assms ne by (simp add: valueAddAlert_generateAlerts)
  have total: "delta = calculateDelta candidate team \<longrightarrow>
            totalValueAddSkills (summary delta) = length (valueAddSkills delta)
            \<and> totalValueAddSkills (summary delta) > 10"
    using assms by (auto simp: calculateDelta_summary)
  from alert total show ?thesis by blast
qed

text \<open>A candidate with eleven skills against an empty team: eleven value-add skills, ten exposed.\<close>

theorem C8_value_add_truncation_witness:
  "length (valueAddSkills (calculateDelta candidate_11_skills (buildTeamAggregate None))) = 11
   \<and> (\<exists>a. valueAddAlert (generateAlerts
              (calculateDelta candidate_11_skills (buildTeamAggregate None))) = Some a
         \<and> length (va_skills a) = 10
         \<and> va_skills a = take 10 (valueAddSkills
              (calculateDelta candidate_11_skills (buildTeamAggregate None))))
   \<and> totalValueAddSkills (summary
        (calculateDelta candidate_11_skills (buildTeamAggregate None))) = 11"
proof -
  have len: "length (valueAddSkills
      (calculateDelta candidate_11_skills (buildTeamAggregate None))) = 11"
    by (simp add: calculateDelta_valueAdd length_js_sort candidate_11_skills_def
        array_or_empty_def buildTeamAggregate_def emptyAggregate_def delta_defs
        VALUE_ADD_THRESHOLD_def REDUNDANCY_THRESHOLD_def number_defs)
  then have gt: "length (valueAddSkills
      (calculateDelta candidate_11_skills (buildTeamAggregate None))) > 10"
    by simp
  from C8_value_add_truncation [OF gt, of candidate_11_skills "buildTeamAggregate None"] len
  show ?thesis by auto
qed

section \<open>The sort\<close>




















section \<open>What the aggregation counts\<close>












lemma snd_fold_processGenome:
  "snd (fold processGenome gs maps) =
     fold (\<lambda>l. tally (code l) (or_unknown (fluency l)))
       (concat (map (\<lambda>g. array_or_empty (languages g)) gs)) (snd maps)"
  by (induction gs arbitrary: maps) (simp_all add: processGenome_def)










section \<open>Skill frequencies\<close>





section \<open>Orderings\<close>




section \<open>No division by zero\<close>






















section \<open>Matching of names and codes\<close>







section \<open>The value-add alert\<close>

















section \<open>Redundancy alerts\<close>










section \<open>Grouping of redundant skills\<close>



















end
